theory Spec2Isabelle
  imports Complex_Main
begin

section \<open>Market-making simulator: data model\<close>

text \<open>
  The simulator is written in Python and computes with Python floats. The embedding
  reads every float as a real number: sums, products and comparisons are the exact
  ones, and the special values (infinities, NaN) of the machine format have no
  counterpart. A Python exception is a value of \<open>py_error\<close>; a method that can raise
  returns a sum whose left summand is the error. Objects are records; a method that
  assigns to an attribute returns the updated record.
\<close>

datatype py_error = ZeroDivisionError | ValueError

text \<open>\<open>order_book.py\<close>, class \<open>OrderBook\<close>: the four attributes set by \<open>__init__\<close>.\<close>

record OrderBook =
  mid_price :: real
  spread :: real
  depth_per_level :: real
  num_levels :: int

text \<open>\<open>risk/risk_manager.py\<close>, class \<open>RiskManager\<close>; \<open>drawdown_limit\<close> is \<open>Optional[float]\<close>.\<close>

record RiskManager =
  enable_kill_switch :: bool
  drawdown_limit :: "real option"
  enable_size_throttle :: bool
  min_throttle :: real

text \<open>\<open>strategy/market_maker.py\<close>, class \<open>MarketMaker\<close>: configuration and the five accumulators.\<close>

record MarketMaker =
  quote_spread :: real
  quote_size :: real
  max_inventory :: real
  inventory_skew_factor :: real
  risk_manager :: "RiskManager option"
  inventory :: real
  total_buy_value :: real
  total_sell_value :: real
  total_bought :: real
  total_sold :: real

section \<open>OrderBook\<close>

definition OrderBook_init :: "real \<Rightarrow> real \<Rightarrow> real \<Rightarrow> int \<Rightarrow> OrderBook" where
  "OrderBook_init initial_mid spread' depth_per_level' num_levels' =
     \<lparr>mid_price = initial_mid, spread = spread',
      depth_per_level = depth_per_level', num_levels = num_levels'\<rparr>"

definition get_mid_price :: "OrderBook \<Rightarrow> real" where
  "get_mid_price self = mid_price self"

definition get_best_bid :: "OrderBook \<Rightarrow> real" where
  "get_best_bid self = mid_price self - spread self"

definition get_best_ask :: "OrderBook \<Rightarrow> real" where
  "get_best_ask self = mid_price self + spread self"

definition update_mid_price :: "real \<Rightarrow> OrderBook \<Rightarrow> OrderBook" where
  "update_mid_price new_mid self = self\<lparr>mid_price := new_mid\<rparr>"

text \<open>
  Python's \<open>/\<close> on floats raises \<open>ZeroDivisionError\<close> when the divisor is zero.
\<close>

definition py_truediv :: "real \<Rightarrow> real \<Rightarrow> py_error + real" where
  "py_truediv a b = (if b = 0 then Inl ZeroDivisionError else Inr (a / b))"

text \<open>
  \<open>execute_market_buy\<close>: the executed quantity and the execution price are computed
  first; the impact branch then divides by the depth and moves the mid price. The
  result is the returned pair together with the order book after the call.
\<close>

definition execute_market_buy ::
  "real \<Rightarrow> OrderBook \<Rightarrow> py_error + ((real \<times> real) \<times> OrderBook)" where
  "execute_market_buy quantity self =
     (let available_depth = depth_per_level self;
          executed_qty = min quantity available_depth;
          execution_price = get_best_ask self
      in if quantity > available_depth then
           (case py_truediv quantity available_depth of
              Inl e \<Rightarrow> Inl e
            | Inr r \<Rightarrow>
                (let price_impact = (r - 1) * spread self * 0.5
                 in Inr ((execution_price, executed_qty),
                         self\<lparr>mid_price := mid_price self + price_impact\<rparr>)))
         else Inr ((execution_price, executed_qty), self))"

definition execute_market_sell ::
  "real \<Rightarrow> OrderBook \<Rightarrow> py_error + ((real \<times> real) \<times> OrderBook)" where
  "execute_market_sell quantity self =
     (let available_depth = depth_per_level self;
          executed_qty = min quantity available_depth;
          execution_price = get_best_bid self
      in if quantity > available_depth then
           (case py_truediv quantity available_depth of
              Inl e \<Rightarrow> Inl e
            | Inr r \<Rightarrow>
                (let price_impact = (r - 1) * spread self * 0.5
                 in Inr ((execution_price, executed_qty),
                         self\<lparr>mid_price := mid_price self - price_impact\<rparr>)))
         else Inr ((execution_price, executed_qty), self))"

section \<open>RiskManager\<close>

text \<open>
  \<open>RiskManager.apply\<close> rebinds its own parameters \<open>bid_size\<close> and \<open>ask_size\<close> and
  assigns to no attribute, so the model is a function of the configuration and the
  seven arguments. The division is reached only under \<open>max_inventory > 0\<close>.
\<close>

definition RiskManager_apply ::
  "RiskManager \<Rightarrow> real \<Rightarrow> real \<Rightarrow> real \<Rightarrow> real \<Rightarrow> real \<Rightarrow> real \<Rightarrow> real
     \<Rightarrow> real \<times> real \<times> real \<times> real \<times> bool" where
  "RiskManager_apply self bid_price bid_size ask_price ask_size inventory' max_inventory' cash_pnl =
     (let is_active = True
      in if enable_kill_switch self \<and> drawdown_limit self \<noteq> None
            \<and> cash_pnl \<le> - \<bar>the (drawdown_limit self)\<bar>
         then (bid_price, 0, ask_price, 0, False)
         else if enable_size_throttle self \<and> max_inventory' > 0 then
           (let inv_ratio = min 1 (\<bar>inventory'\<bar> / max_inventory');
                scale = max (min_throttle self) (1 - inv_ratio)
            in (bid_price, bid_size * scale, ask_price, ask_size * scale, is_active))
         else (bid_price, bid_size, ask_price, ask_size, is_active))"

section \<open>MarketMaker\<close>

definition MarketMaker_init ::
  "real \<Rightarrow> real \<Rightarrow> real \<Rightarrow> real \<Rightarrow> RiskManager option \<Rightarrow> MarketMaker" where
  "MarketMaker_init quote_spread' quote_size' max_inventory' inventory_skew_factor' risk_manager' =
     \<lparr>quote_spread = quote_spread', quote_size = quote_size',
      max_inventory = max_inventory', inventory_skew_factor = inventory_skew_factor',
      risk_manager = risk_manager',
      inventory = 0, total_buy_value = 0, total_sell_value = 0,
      total_bought = 0, total_sold = 0\<rparr>"

definition get_inventory :: "MarketMaker \<Rightarrow> real" where
  "get_inventory self = inventory self"

definition get_cash_pnl :: "MarketMaker \<Rightarrow> real" where
  "get_cash_pnl self = total_sell_value self - total_buy_value self"

definition get_total_pnl :: "MarketMaker \<Rightarrow> real \<Rightarrow> real" where
  "get_total_pnl self current_mid =
     (let net_cost = total_buy_value self - total_sell_value self;
          inventory_value = inventory self * current_mid;
          unrealized_pnl = inventory_value - net_cost
      in unrealized_pnl)"

definition execute_bid_fill :: "real \<Rightarrow> real \<Rightarrow> MarketMaker \<Rightarrow> MarketMaker" where
  "execute_bid_fill price quantity self =
     self\<lparr>inventory := inventory self + quantity,
          total_buy_value := total_buy_value self + price * quantity,
          total_bought := total_bought self + quantity\<rparr>"

definition execute_ask_fill :: "real \<Rightarrow> real \<Rightarrow> MarketMaker \<Rightarrow> MarketMaker" where
  "execute_ask_fill price quantity self =
     self\<lparr>inventory := inventory self - quantity,
          total_sell_value := total_sell_value self + price * quantity,
          total_sold := total_sold self + quantity\<rparr>"

text \<open>\<open>Optional[float]\<close> results: \<open>None\<close> is Python's \<open>None\<close>.\<close>

definition get_average_buy_price :: "MarketMaker \<Rightarrow> py_error + real option" where
  "get_average_buy_price self =
     (if total_bought self = 0 then Inr None
      else (case py_truediv (total_buy_value self) (total_bought self) of
              Inl e \<Rightarrow> Inl e | Inr r \<Rightarrow> Inr (Some r)))"

definition get_average_sell_price :: "MarketMaker \<Rightarrow> py_error + real option" where
  "get_average_sell_price self =
     (if total_sold self = 0 then Inr None
      else (case py_truediv (total_sell_value self) (total_sold self) of
              Inl e \<Rightarrow> Inl e | Inr r \<Rightarrow> Inr (Some r)))"

text \<open>
  \<open>get_quotes\<close> is a method of the market maker that is handed the order book. The
  model returns the quote together with both objects as they are when the method
  returns, so that what the call does to them is part of its result.
\<close>

type_synonym quote = "real \<times> real \<times> real \<times> real"

definition get_quotes :: "MarketMaker \<Rightarrow> OrderBook \<Rightarrow> quote \<times> MarketMaker \<times> OrderBook" where
  "get_quotes self order_book =
     (let mid = get_mid_price order_book;
          inventory_skew = inventory self * inventory_skew_factor self;
          bid_price = mid - quote_spread self - inventory_skew;
          ask_price = mid + quote_spread self + inventory_skew;
          bid_size = (if \<bar>inventory self + quote_size self\<bar> \<le> max_inventory self
                      then quote_size self else 0);
          ask_size = (if \<bar>inventory self - quote_size self\<bar> \<le> max_inventory self
                      then quote_size self else 0)
      in case risk_manager self of
           None \<Rightarrow> ((bid_price, bid_size, ask_price, ask_size), self, order_book)
         | Some rm \<Rightarrow>
             (case RiskManager_apply rm bid_price bid_size ask_price ask_size
                     (inventory self) (max_inventory self) (get_cash_pnl self) of
                (bid_price', bid_size', ask_price', ask_size', _) \<Rightarrow>
                  ((bid_price', bid_size', ask_price', ask_size'), self, order_book)))"

section \<open>PnLTracker\<close>

text \<open>
  A trade is a dictionary with six fixed keys, of which \<open>side\<close> holds a Python string.
  The keys are prefixed with \<open>t_\<close> here, since \<open>mid_price\<close> already names an attribute of
  the order book.
\<close>

record Trade =
  t_timestamp :: real
  t_side :: string
  t_price :: real
  t_quantity :: real
  t_mid_price :: real
  t_spread_vs_mid :: real

record PnLTracker =
  trades :: "Trade list"
  inventory_snapshots :: "(real \<times> real \<times> real) list"

definition PnLTracker_init :: PnLTracker where
  "PnLTracker_init = \<lparr>trades = [], inventory_snapshots = []\<rparr>"

definition record_trade :: "real \<Rightarrow> string \<Rightarrow> real \<Rightarrow> real \<Rightarrow> real \<Rightarrow> PnLTracker \<Rightarrow> PnLTracker" where
  "record_trade timestamp side price quantity mid_price' self =
     self\<lparr>trades := trades self @
        [\<lparr>t_timestamp = timestamp, t_side = side, t_price = price, t_quantity = quantity,
          t_mid_price = mid_price',
          t_spread_vs_mid = (if side = ''sell'' then price - mid_price' else mid_price' - price)\<rparr>]\<rparr>"

definition record_inventory_snapshot :: "real \<Rightarrow> real \<Rightarrow> real \<Rightarrow> PnLTracker \<Rightarrow> PnLTracker" where
  "record_inventory_snapshot timestamp inventory' mid_price' self =
     self\<lparr>inventory_snapshots := inventory_snapshots self @ [(timestamp, inventory', mid_price')]\<rparr>"

text \<open>
  The body of the loop of \<open>get_adverse_selection_cost\<close> at index \<open>i\<close>, as a function of the
  accumulator. The loop runs \<open>i\<close> over \<open>range(len(self.trades) - 1)\<close>, so both \<open>trades[i]\<close> and
  \<open>trades[i + 1]\<close> are in range whenever the body runs.
\<close>

definition adverse_selection_body :: "Trade list \<Rightarrow> nat \<Rightarrow> real \<Rightarrow> real" where
  "adverse_selection_body ts i adverse_selection =
     (let trade = ts ! i;
          next_trade = ts ! (i + 1);
          price_move = t_mid_price next_trade - t_mid_price trade
      in if t_side trade = ''buy'' \<and> price_move < 0 then
           adverse_selection + \<bar>price_move\<bar> * t_quantity trade
         else if t_side trade = ''sell'' \<and> price_move > 0 then
           adverse_selection + \<bar>price_move\<bar> * t_quantity trade
         else adverse_selection)"

definition get_adverse_selection_cost :: "PnLTracker \<Rightarrow> real" where
  "get_adverse_selection_cost self =
     (if length (trades self) < 2 then 0
      else - fold (adverse_selection_body (trades self)) [0..<length (trades self) - 1] 0)"

text \<open>
  The estimator in the words of the specification: the cost of one consecutive pair of trades,
  and the negated sum of that cost over all consecutive pairs in recording order.
\<close>

definition adverse_pair_cost :: "Trade \<times> Trade \<Rightarrow> real" where
  "adverse_pair_cost p =
     (case p of (t, t_next) \<Rightarrow>
        (let move = t_mid_price t_next - t_mid_price t
         in if (t_side t = ''buy'' \<and> move < 0) \<or> (t_side t = ''sell'' \<and> move > 0)
            then \<bar>move\<bar> * t_quantity t else 0))"

definition adverse_selection_spec :: "Trade list \<Rightarrow> real" where
  "adverse_selection_spec ts =
     (if length ts < 2 then 0 else - sum_list (map adverse_pair_cost (zip ts (tl ts))))"

section \<open>MarketSimulator\<close>

text \<open>
  The simulator draws from NumPy's process-wide generator: \<open>np.random.seed\<close>,
  \<open>np.random.random\<close> and \<open>np.random.normal\<close> all act on one global state, whose type is
  \<open>'g\<close> here. NumPy is not part of the repository, so its four functions are parameters,
  collected in a record: seeding replaces the global state or raises, a uniform draw
  returns a number and the next state, a normal draw with location and scale returns a
  number or raises (NumPy rejects a negative scale) and the next state.
\<close>

record 'g numpy =
  np_random_seed :: "int \<Rightarrow> py_error + 'g"
  np_random_random :: "'g \<Rightarrow> real \<times> 'g"
  np_random_normal :: "real \<Rightarrow> real \<Rightarrow> 'g \<Rightarrow> (py_error + real) \<times> 'g"
  np_sqrt :: "real \<Rightarrow> real"

text \<open>A history entry is a dictionary with eleven fixed keys, prefixed with \<open>step_\<close> here.\<close>

record StepRecord =
  step_time :: real
  step_mid_price :: real
  step_bid_price :: real
  step_ask_price :: real
  step_inventory :: real
  step_trade_occurred :: bool
  step_trade_side :: "string option"
  step_trade_price :: "real option"
  step_trade_quantity :: "real option"
  step_cash_pnl :: real
  step_total_pnl :: real

text \<open>
  The simulator holds its order book, market maker and tracker. The record holds them by
  value: the model is of simulators that do not share these three objects with one another.
\<close>

record MarketSimulator =
  order_book :: OrderBook
  market_maker :: MarketMaker
  pnl_tracker :: PnLTracker
  current_time :: real
  history :: "StepRecord list"

text \<open>
  \<open>__init__\<close> seeds the global generator when a seed is given; the result is the new
  simulator and the global generator state after the call.
\<close>

definition MarketSimulator_init ::
  "'g numpy \<Rightarrow> OrderBook \<Rightarrow> MarketMaker \<Rightarrow> PnLTracker \<Rightarrow> int option \<Rightarrow> 'g
     \<Rightarrow> py_error + (MarketSimulator \<times> 'g)" where
  "MarketSimulator_init np order_book' market_maker' pnl_tracker' random_seed g =
     (let self = \<lparr>order_book = order_book', market_maker = market_maker',
                  pnl_tracker = pnl_tracker', current_time = 0, history = []\<rparr>
      in case random_seed of
           None \<Rightarrow> Inr (self, g)
         | Some s \<Rightarrow> (case np_random_seed np s of Inl e \<Rightarrow> Inl e | Inr g' \<Rightarrow> Inr (self, g')))"

definition simulate_price_move ::
  "'g numpy \<Rightarrow> real \<Rightarrow> real \<Rightarrow> MarketSimulator \<Rightarrow> 'g \<Rightarrow> (py_error + unit) \<times> MarketSimulator \<times> 'g" where
  "simulate_price_move np volatility dt self g =
     (let current_mid = get_mid_price (order_book self)
      in case np_random_normal np 0 (volatility * np_sqrt np dt) g of
           (Inl e, g') \<Rightarrow> (Inl e, self, g')
         | (Inr z, g') \<Rightarrow>
             (let price_change = z * current_mid;
                  new_mid = current_mid + price_change
              in (Inr (), self\<lparr>order_book := update_mid_price new_mid (order_book self)\<rparr>, g')))"

definition simulate_order_flow :: "'g numpy \<Rightarrow> real \<Rightarrow> 'g \<Rightarrow> string option \<times> 'g" where
  "simulate_order_flow np arrival_rate g =
     (case np_random_random np g of (u, g1) \<Rightarrow>
        if u < arrival_rate then
          (case np_random_random np g1 of (v, g2) \<Rightarrow>
             (Some (if v < 0.5 then ''buy'' else ''sell''), g2))
        else (None, g1))"

text \<open>
  One step. The result is the returned dictionary or the exception raised by the price
  draw, the simulator after the call and the generator state after the call. When the
  price draw raises, the attribute updates made before it (time, fill, trade record) stay.
\<close>

definition step ::
  "'g numpy \<Rightarrow> real \<Rightarrow> real \<Rightarrow> real \<Rightarrow> MarketSimulator \<Rightarrow> 'g
     \<Rightarrow> (py_error + StepRecord) \<times> MarketSimulator \<times> 'g" where
  "step np volatility arrival_rate dt self0 g0 =
     (let self1 = self0\<lparr>current_time := current_time self0 + dt\<rparr>;
          initial_mid = get_mid_price (order_book self1);
          initial_inventory = get_inventory (market_maker self1)
      in case get_quotes (market_maker self1) (order_book self1) of
           ((bid_price, bid_size, ask_price, ask_size), mm', ob') \<Rightarrow>
      (let self2 = self1\<lparr>order_book := ob', market_maker := mm'\<rparr>
       in case simulate_order_flow np arrival_rate g0 of (order_side, g1) \<Rightarrow>
       (case (if order_side = Some ''buy'' \<and> ask_size > 0 then
                (self2\<lparr>market_maker := execute_ask_fill ask_price ask_size (market_maker self2),
                       pnl_tracker := record_trade (current_time self2) ''sell'' ask_price ask_size
                                        initial_mid (pnl_tracker self2)\<rparr>,
                 True, Some ''sell'', Some ask_price, Some ask_size)
              else if order_side = Some ''sell'' \<and> bid_size > 0 then
                (self2\<lparr>market_maker := execute_bid_fill bid_price bid_size (market_maker self2),
                       pnl_tracker := record_trade (current_time self2) ''buy'' bid_price bid_size
                                        initial_mid (pnl_tracker self2)\<rparr>,
                 True, Some ''buy'', Some bid_price, Some bid_size)
              else (self2, False, None, None, None)) of
          (self3, trade_occurred, trade_side, trade_price, trade_quantity) \<Rightarrow>
        (case simulate_price_move np volatility dt self3 g1 of
           (Inl e, self4, g2) \<Rightarrow> (Inl e, self4, g2)
         | (Inr _, self4, g2) \<Rightarrow>
             (let current_mid = get_mid_price (order_book self4);
                  current_inventory = get_inventory (market_maker self4);
                  self5 = self4\<lparr>pnl_tracker := record_inventory_snapshot (current_time self4)
                                    current_inventory current_mid (pnl_tracker self4)\<rparr>;
                  step_data = \<lparr>step_time = current_time self5,
                               step_mid_price = current_mid,
                               step_bid_price = bid_price,
                               step_ask_price = ask_price,
                               step_inventory = current_inventory,
                               step_trade_occurred = trade_occurred,
                               step_trade_side = trade_side,
                               step_trade_price = trade_price,
                               step_trade_quantity = trade_quantity,
                               step_cash_pnl = get_cash_pnl (market_maker self5),
                               step_total_pnl = get_total_pnl (market_maker self5) current_mid\<rparr>
              in (Inr step_data, self5\<lparr>history := history self5 @ [step_data]\<rparr>, g2))))))"

text \<open>
  \<open>run\<close>: the loop over \<open>range(num_steps)\<close> makes \<open>nat num_steps\<close> calls of \<open>step\<close> (none when
  \<open>num_steps\<close> is negative) and ends early when a step raises. Printing under \<open>verbose\<close>
  changes no object and is left out.
\<close>

fun run_loop ::
  "'g numpy \<Rightarrow> nat \<Rightarrow> real \<Rightarrow> real \<Rightarrow> real \<Rightarrow> MarketSimulator \<Rightarrow> 'g
     \<Rightarrow> (py_error + unit) \<times> MarketSimulator \<times> 'g" where
  "run_loop np 0 volatility arrival_rate dt self g = (Inr (), self, g)"
| "run_loop np (Suc n) volatility arrival_rate dt self g =
     (case step np volatility arrival_rate dt self g of
        (Inl e, self', g') \<Rightarrow> (Inl e, self', g')
      | (Inr _, self', g') \<Rightarrow> run_loop np n volatility arrival_rate dt self' g')"

definition run ::
  "'g numpy \<Rightarrow> int \<Rightarrow> real \<Rightarrow> real \<Rightarrow> real \<Rightarrow> MarketSimulator \<Rightarrow> 'g
     \<Rightarrow> (py_error + StepRecord list) \<times> MarketSimulator \<times> 'g" where
  "run np num_steps volatility arrival_rate dt self g =
     (case run_loop np (nat num_steps) volatility arrival_rate dt self g of
        (Inl e, self', g') \<Rightarrow> (Inl e, self', g')
      | (Inr _, self', g') \<Rightarrow> (Inr (history self'), self', g'))"

section \<open>Callers\<close>

text \<open>Any number of consecutive calls of \<open>get_quotes\<close>, collecting the returned quotes.\<close>

fun get_quotes_times :: "nat \<Rightarrow> MarketMaker \<Rightarrow> OrderBook \<Rightarrow> quote list \<times> MarketMaker \<times> OrderBook" where
  "get_quotes_times 0 mm ob = ([], mm, ob)"
| "get_quotes_times (Suc n) mm ob =
     (case get_quotes mm ob of (q, mm', ob') \<Rightarrow>
        (case get_quotes_times n mm' ob' of (qs, mm'', ob'') \<Rightarrow> (q # qs, mm'', ob'')))"

text \<open>
  A sequence of calls of \<open>step\<close>, each with its own arguments \<open>(volatility, arrival_rate, dt)\<close>.
  The caller goes on after a call that raised, so the sequence covers both a loop that
  stops at the first exception and one that catches it.
\<close>

fun step_calls ::
  "'g numpy \<Rightarrow> (real \<times> real \<times> real) list \<Rightarrow> MarketSimulator \<Rightarrow> 'g \<Rightarrow> MarketSimulator \<times> 'g" where
  "step_calls np [] self g = (self, g)"
| "step_calls np ((volatility, arrival_rate, dt) # rest) self g =
     (case step np volatility arrival_rate dt self g of
        (_, self', g') \<Rightarrow> step_calls np rest self' g')"

text \<open>The sequence of \<open>(mid_price, inventory)\<close> pairs of a history.\<close>

definition mid_inventory_sequence :: "StepRecord list \<Rightarrow> (real \<times> real) list" where
  "mid_inventory_sequence h = map (\<lambda>r. (step_mid_price r, step_inventory r)) h"

text \<open>
  \<open>tests/test_simulator.py\<close>, \<open>test_deterministic_with_seed\<close>: a simulator is constructed
  with a seed and run at once. The result is the sequence it produced (or the exception)
  and the state of the global generator afterwards.
\<close>

definition construct_and_run ::
  "'g numpy \<Rightarrow> OrderBook \<Rightarrow> MarketMaker \<Rightarrow> PnLTracker \<Rightarrow> int \<Rightarrow> int \<Rightarrow> real \<Rightarrow> real \<Rightarrow> real \<Rightarrow> 'g
     \<Rightarrow> (py_error + (real \<times> real) list) \<times> 'g" where
  "construct_and_run np ob mm tr random_seed num_steps volatility arrival_rate dt g =
     (case MarketSimulator_init np ob mm tr (Some random_seed) g of
        Inl e \<Rightarrow> (Inl e, g)
      | Inr (sim, g1) \<Rightarrow>
          (case run np num_steps volatility arrival_rate dt sim g1 of
             (Inl e, _, g2) \<Rightarrow> (Inl e, g2)
           | (Inr h, _, g2) \<Rightarrow> (Inr (mid_inventory_sequence h), g2)))"

text \<open>
  The other order of the same four calls: both simulators are constructed, with the same
  configuration and seed, before either is run. The result is the pair of sequences.
\<close>

definition construct_both_then_run ::
  "'g numpy \<Rightarrow> OrderBook \<Rightarrow> MarketMaker \<Rightarrow> PnLTracker \<Rightarrow> int \<Rightarrow> int \<Rightarrow> real \<Rightarrow> real \<Rightarrow> real \<Rightarrow> 'g
     \<Rightarrow> py_error + ((real \<times> real) list \<times> (real \<times> real) list)" where
  "construct_both_then_run np ob mm tr random_seed num_steps volatility arrival_rate dt g =
     (case MarketSimulator_init np ob mm tr (Some random_seed) g of
        Inl e \<Rightarrow> Inl e
      | Inr (sim1, g1) \<Rightarrow>
     (case MarketSimulator_init np ob mm tr (Some random_seed) g1 of
        Inl e \<Rightarrow> Inl e
      | Inr (sim2, g2) \<Rightarrow>
     (case run np num_steps volatility arrival_rate dt sim1 g2 of
        (Inl e, _, _) \<Rightarrow> Inl e
      | (Inr h1, _, g3) \<Rightarrow>
     (case run np num_steps volatility arrival_rate dt sim2 g3 of
        (Inl e, _, _) \<Rightarrow> Inl e
      | (Inr h2, _, _) \<Rightarrow> Inr (mid_inventory_sequence h1, mid_inventory_sequence h2)))))"

text \<open>
  The draws of one step in the words of the specification: the arrival draw, the
  direction draw only when the arrival draw fell below the arrival rate, then the price
  draw. The value is the generator state these draws leave.
\<close>

definition step_draws :: "'g numpy \<Rightarrow> real \<Rightarrow> real \<Rightarrow> real \<Rightarrow> 'g \<Rightarrow> 'g" where
  "step_draws np volatility arrival_rate dt g =
     (case np_random_random np g of (u, g1) \<Rightarrow>
        (let g2 = (if u < arrival_rate then snd (np_random_random np g1) else g1)
         in snd (np_random_normal np 0 (volatility * np_sqrt np dt) g2)))"

text \<open>
  A small generator to run the simulator on: the state counts the draws made since
  seeding, a uniform draw cycles through 0, 1/4, 1/2, 3/4, a normal draw returns its
  location (and raises on a negative scale, as NumPy does), and seeding with a negative
  number raises.
\<close>

definition counter_numpy :: "nat numpy" where
  "counter_numpy =
     \<lparr>np_random_seed = (\<lambda>s. if s < 0 then Inl ValueError else Inr (nat s)),
      np_random_random = (\<lambda>g. (real (g mod 4) / 4, Suc g)),
      np_random_normal = (\<lambda>loc scale g. (if scale < 0 then Inl ValueError else Inr loc, Suc g)),
      np_sqrt = sqrt\<rparr>"

text \<open>The default objects of the tests: \<open>OrderBook()\<close>, \<open>MarketMaker()\<close>, \<open>RiskManager()\<close>.\<close>

definition default_order_book :: OrderBook where
  "default_order_book = OrderBook_init 100 0.10 100 5"

definition default_market_maker :: MarketMaker where
  "default_market_maker = MarketMaker_init 0.05 10 100 0.01 None"

definition default_risk_manager :: RiskManager where
  "default_risk_manager =
     \<lparr>enable_kill_switch = False, drawdown_limit = None,
      enable_size_throttle = True, min_throttle = 0.2\<rparr>"

text \<open>A fresh simulator over the default objects, with the default risk manager attached.\<close>

definition throttled_simulator :: MarketSimulator where
  "throttled_simulator =
     \<lparr>order_book = default_order_book,
      market_maker = default_market_maker\<lparr>risk_manager := Some default_risk_manager\<rparr>,
      pnl_tracker = PnLTracker_init, current_time = 0, history = []\<rparr>"

section \<open>The market maker's accounts\<close>

text \<open>
  Claim C1. Whenever the inventory of a market maker is zero, \<open>get_total_pnl\<close> at any mid
  price equals \<open>get_cash_pnl\<close>: with no position, the total profit is the realised one.
\<close>
theorem total_pnl_eq_cash_pnl_when_flat:
  "inventory self = 0 \<Longrightarrow> get_total_pnl self m = get_cash_pnl self"
  by (simp add: get_total_pnl_def get_cash_pnl_def)

text \<open>The round trip of the tests: buy 10 at 99.95, sell 10 at 100.05.\<close>
theorem total_pnl_eq_cash_pnl_when_flat_witness:
  "inventory (execute_ask_fill 100.05 10 (execute_bid_fill 99.95 10 default_market_maker)) = 0
   \<and> get_total_pnl (execute_ask_fill 100.05 10 (execute_bid_fill 99.95 10 default_market_maker)) 123
       = get_cash_pnl (execute_ask_fill 100.05 10 (execute_bid_fill 99.95 10 default_market_maker))
   \<and> get_cash_pnl (execute_ask_fill 100.05 10 (execute_bid_fill 99.95 10 default_market_maker)) = 1"
proof -
  let ?mm = "execute_ask_fill 100.05 10 (execute_bid_fill 99.95 10 default_market_maker)"
  have flat: "inventory ?mm = 0"
    by (simp add: execute_ask_fill_def execute_bid_fill_def default_market_maker_def MarketMaker_init_def)
  have cash: "get_cash_pnl ?mm = 1"
    by (simp add: get_cash_pnl_def execute_ask_fill_def execute_bid_fill_def
        default_market_maker_def MarketMaker_init_def)
  from total_pnl_eq_cash_pnl_when_flat [OF flat, of 123] flat cash show ?thesis by simp
qed

section \<open>The risk manager\<close>

text \<open>
  Claim C5. With the kill switch enabled, a drawdown limit set and the cash PnL at or below
  minus the absolute limit, \<open>RiskManager.apply\<close> returns the two prices it was given, both
  sizes zero and \<open>is_active = False\<close>, whatever the throttle settings, the sizes, the
  inventory and the inventory limit are: the throttle plays no part in the result.
\<close>
theorem kill_switch_short_circuits:
  "enable_kill_switch rm \<Longrightarrow> drawdown_limit rm = Some d \<Longrightarrow> cash_pnl \<le> - \<bar>d\<bar> \<Longrightarrow>
   RiskManager_apply rm bid_price bid_size ask_price ask_size inv0 max_inv cash_pnl
     = (bid_price, 0, ask_price, 0, False)"
  by (simp add: RiskManager_apply_def)

text \<open>The combined manager of the tests, triggered at a cash PnL of -51 against a limit of 50.\<close>
theorem kill_switch_short_circuits_witness:
  "enable_kill_switch (default_risk_manager\<lparr>enable_kill_switch := True, drawdown_limit := Some 50, min_throttle := 0.3\<rparr>)
   \<and> drawdown_limit (default_risk_manager\<lparr>enable_kill_switch := True, drawdown_limit := Some 50, min_throttle := 0.3\<rparr>) = Some 50
   \<and> (-51::real) \<le> - \<bar>50\<bar>
   \<and> RiskManager_apply (default_risk_manager\<lparr>enable_kill_switch := True, drawdown_limit := Some 50, min_throttle := 0.3\<rparr>)
        99 10 101 10 50 100 (-51) = (99, 0, 101, 0, False)"
proof -
  let ?rm = "default_risk_manager\<lparr>enable_kill_switch := True, drawdown_limit := Some 50, min_throttle := 0.3\<rparr>"
  have a: "enable_kill_switch ?rm" by simp
  have b: "drawdown_limit ?rm = Some 50" by simp
  have c: "(-51::real) \<le> - \<bar>50\<bar>" by simp
  from kill_switch_short_circuits [OF a b c, of 99 10 101 10 50 100] a b c show ?thesis by simp
qed

section \<open>Quotes\<close>

text \<open>
  Claim C6. Without a risk manager, \<open>get_quotes\<close> returns the bid price
  \<open>mid - quote_spread - inventory * inventory_skew_factor\<close>, the ask price
  \<open>mid + quote_spread + inventory * inventory_skew_factor\<close>, the bid size \<open>quote_size\<close> when
  \<open>|inventory + quote_size| \<le> max_inventory\<close> and zero otherwise, and the ask size
  \<open>quote_size\<close> when \<open>|inventory - quote_size| \<le> max_inventory\<close> and zero otherwise.
\<close>
theorem get_quotes_without_risk_manager:
  "risk_manager self = None \<Longrightarrow>
   fst (get_quotes self ob) =
     (mid_price ob - quote_spread self - inventory self * inventory_skew_factor self,
      (if \<bar>inventory self + quote_size self\<bar> \<le> max_inventory self then quote_size self else 0),
      mid_price ob + quote_spread self + inventory self * inventory_skew_factor self,
      (if \<bar>inventory self - quote_size self\<bar> \<le> max_inventory self then quote_size self else 0))"
  by (simp add: get_quotes_def get_mid_price_def Let_def)

text \<open>Quote suppression: at inventory 95 against the limit 100 the bid size is zero.\<close>
theorem get_quotes_without_risk_manager_witness:
  "risk_manager (default_market_maker\<lparr>inventory := 95\<rparr>) = None
   \<and> fst (get_quotes (default_market_maker\<lparr>inventory := 95\<rparr>) default_order_book)
       = (99, 0, 101, 10)"
proof -
  let ?mm = "default_market_maker\<lparr>inventory := 95\<rparr>"
  have a: "risk_manager ?mm = None"
    by (simp add: default_market_maker_def MarketMaker_init_def)
  from get_quotes_without_risk_manager [OF a, of default_order_book] a show ?thesis
    by (simp add: default_market_maker_def MarketMaker_init_def default_order_book_def OrderBook_init_def)
qed

text \<open>
  Claim C8. For every configuration of the risk manager and every input, the bid price and
  the ask price returned by \<open>RiskManager.apply\<close> are the ones passed in.
\<close>
theorem risk_manager_keeps_prices:
  "RiskManager_apply rm bid_price bid_size ask_price ask_size inv0 max_inv cash_pnl
     = (bid_price', bid_size', ask_price', ask_size', is_active)
   \<Longrightarrow> bid_price' = bid_price \<and> ask_price' = ask_price"
  by (auto simp: RiskManager_apply_def Let_def split: if_splits)

text \<open>The \<open>test_prices_unchanged\<close> input: the throttle scales the sizes to 3 and leaves the prices.\<close>
theorem risk_manager_keeps_prices_witness:
  "RiskManager_apply (default_risk_manager\<lparr>enable_kill_switch := True, drawdown_limit := Some 50, min_throttle := 0.3\<rparr>)
     99.5 10 100.5 10 75 100 (-30) = (99.5, 3, 100.5, 3, True)
   \<and> (99.5::real) = 99.5 \<and> (100.5::real) = 100.5"
proof -
  let ?rm = "default_risk_manager\<lparr>enable_kill_switch := True, drawdown_limit := Some 50, min_throttle := 0.3\<rparr>"
  have a: "RiskManager_apply ?rm 99.5 10 100.5 10 75 100 (-30) = (99.5, 3, 100.5, 3, True)"
    by (simp add: RiskManager_apply_def default_risk_manager_def)
  from risk_manager_keeps_prices [OF a] a show ?thesis by simp
qed

text \<open>
  Claim C9. \<open>get_average_buy_price\<close> returns \<open>None\<close> exactly when \<open>total_bought\<close> is zero and
  otherwise returns \<open>total_buy_value / total_bought\<close>; it never raises. The same holds for
  \<open>get_average_sell_price\<close> with \<open>total_sold\<close> and \<open>total_sell_value\<close>.
\<close>
theorem average_prices_guarded:
  "(get_average_buy_price self = Inr None \<longleftrightarrow> total_bought self = 0)
   \<and> (total_bought self \<noteq> 0 \<longrightarrow>
        get_average_buy_price self = Inr (Some (total_buy_value self / total_bought self)))
   \<and> (get_average_sell_price self = Inr None \<longleftrightarrow> total_sold self = 0)
   \<and> (total_sold self \<noteq> 0 \<longrightarrow>
        get_average_sell_price self = Inr (Some (total_sell_value self / total_sold self)))"
  by (simp add: get_average_buy_price_def get_average_sell_price_def py_truediv_def)

text \<open>After one buy of 10 at 99 the average buy price is 99 and there is no average sell price.\<close>
theorem average_prices_guarded_witness:
  "total_bought (execute_bid_fill 99 10 default_market_maker) \<noteq> 0
   \<and> get_average_buy_price (execute_bid_fill 99 10 default_market_maker) = Inr (Some 99)
   \<and> total_sold (execute_bid_fill 99 10 default_market_maker) = 0
   \<and> get_average_sell_price (execute_bid_fill 99 10 default_market_maker) = Inr None"
  using average_prices_guarded [of "execute_bid_fill 99 10 default_market_maker"]
  by (simp add: execute_bid_fill_def default_market_maker_def MarketMaker_init_def)

text \<open>Both objects come back from \<open>get_quotes\<close> as they went in.\<close>
lemma get_quotes_snd: "snd (get_quotes mm ob) = (mm, ob)"
  by (simp add: get_quotes_def Let_def split: option.split prod.split)

text \<open>
  Claim C10. A call of \<open>get_quotes\<close> leaves the market maker (its accumulators and its
  configuration, the attached risk manager included) and the order book as they were, and
  any number of consecutive calls return the same quote each time.
\<close>
theorem get_quotes_changes_nothing:
  "snd (get_quotes mm ob) = (mm, ob)
   \<and> get_quotes_times n mm ob = (replicate n (fst (get_quotes mm ob)), mm, ob)"
proof
  show fr: "snd (get_quotes mm ob) = (mm, ob)" by (rule get_quotes_snd)
  show "get_quotes_times n mm ob = (replicate n (fst (get_quotes mm ob)), mm, ob)"
  proof (induction n)
    case 0
    show ?case by simp
  next
    case (Suc n)
    obtain q where q: "get_quotes mm ob = (q, mm, ob)"
      using fr by (cases "get_quotes mm ob") auto
    with Suc show ?case by simp
  qed
qed

text \<open>Three calls with the default risk manager attached, at inventory 50.\<close>
theorem get_quotes_changes_nothing_witness:
  "get_quotes_times 3 (default_market_maker\<lparr>risk_manager := Some default_risk_manager, inventory := 50\<rparr>)
      default_order_book
     = ([(99.45, 5, 100.55, 5), (99.45, 5, 100.55, 5), (99.45, 5, 100.55, 5)],
        default_market_maker\<lparr>risk_manager := Some default_risk_manager, inventory := 50\<rparr>,
        default_order_book)"
  using get_quotes_changes_nothing [of "default_market_maker\<lparr>risk_manager := Some default_risk_manager, inventory := 50\<rparr>"
      default_order_book 3]
  by (simp add: get_quotes_def RiskManager_apply_def get_cash_pnl_def get_mid_price_def
      default_market_maker_def MarketMaker_init_def default_order_book_def OrderBook_init_def
      default_risk_manager_def numeral_3_eq_3)

section \<open>Market orders against the book\<close>

text \<open>
  On a book with no depth, a market buy of one unit exceeds the depth, and the impact
  formula divides by the depth: the call raises instead of returning a pair.
\<close>
theorem execute_market_buy_zero_depth_counterexample:
  "execute_market_buy 1 (OrderBook_init 100 0.10 0 5) = Inl ZeroDivisionError"
  by (simp add: execute_market_buy_def OrderBook_init_def py_truediv_def)

text \<open>
  Claim C4, for every order book and quantity except a zero depth met by a positive
  quantity. \<open>execute_market_buy\<close> returns the best ask of the book as it was before the call
  and the quantity \<open>min(q, depth_per_level)\<close>; when \<open>q > depth_per_level\<close> the mid price
  afterwards is the old one plus \<open>(q / depth_per_level - 1) * spread * 0.5\<close>, and otherwise
  the book is unchanged. \<open>execute_market_sell\<close> is the same with the best bid and the impact
  subtracted.
\<close>
theorem execute_market_orders:
  "depth_per_level ob \<noteq> 0 \<or> q \<le> depth_per_level ob \<Longrightarrow>
   execute_market_buy q ob =
     Inr ((get_best_ask ob, min q (depth_per_level ob)),
          (if q > depth_per_level ob
           then ob\<lparr>mid_price := mid_price ob + (q / depth_per_level ob - 1) * spread ob * 0.5\<rparr>
           else ob))
   \<and> execute_market_sell q ob =
     Inr ((get_best_bid ob, min q (depth_per_level ob)),
          (if q > depth_per_level ob
           then ob\<lparr>mid_price := mid_price ob - (q / depth_per_level ob - 1) * spread ob * 0.5\<rparr>
           else ob))"
  by (auto simp: execute_market_buy_def execute_market_sell_def py_truediv_def Let_def)

text \<open>The large orders of the tests: 200 units against a depth of 100.\<close>
theorem execute_market_orders_witness:
  "depth_per_level default_order_book \<noteq> 0
   \<and> execute_market_buy 200 default_order_book
       = Inr ((100.10, 100), default_order_book\<lparr>mid_price := 100.05\<rparr>)
   \<and> execute_market_sell 200 default_order_book
       = Inr ((99.90, 100), default_order_book\<lparr>mid_price := 99.95\<rparr>)"
proof -
  have d: "depth_per_level default_order_book \<noteq> 0"
    by (simp add: default_order_book_def OrderBook_init_def)
  from execute_market_orders [OF disjI1, OF d, of 200] d show ?thesis
    by (simp add: default_order_book_def OrderBook_init_def get_best_ask_def get_best_bid_def)
qed

section \<open>The adverse-selection estimator\<close>

text \<open>One run of the loop body adds the cost of the pair at that index.\<close>
lemma adverse_selection_body_pair:
  "adverse_selection_body ts i a = a + adverse_pair_cost (ts ! i, ts ! (i + 1))"
  by (simp add: adverse_selection_body_def adverse_pair_cost_def Let_def)

text \<open>The loop over \<open>range(n)\<close>, started at accumulator \<open>a\<close>.\<close>
lemma fold_adverse_selection_body:
  "fold (adverse_selection_body ts) [0..<n] a
     = a + (\<Sum>i<n. adverse_pair_cost (ts ! i, ts ! (i + 1)))"
  by (induction n) (simp_all add: adverse_selection_body_pair)

text \<open>A sum over the consecutive pairs of a list, by index.\<close>
lemma sum_list_consecutive_pairs:
  fixes f :: "'a \<times> 'a \<Rightarrow> real"
  shows "sum_list (map f (zip ts (tl ts))) = (\<Sum>i<length ts - 1. f (ts ! i, ts ! (i + 1)))"
proof -
  have "sum_list (map f (zip ts (tl ts)))
          = (\<Sum>i = 0..<length ts - 1. map f (zip ts (tl ts)) ! i)"
    by (simp add: sum_list_sum_nth)
  also have "\<dots> = (\<Sum>i = 0..<length ts - 1. f (ts ! i, ts ! (i + 1)))"
    by (rule sum.cong) (simp_all add: nth_tl)
  finally show ?thesis by (simp add: atLeast0LessThan)
qed

lemma adverse_pair_cost_nonneg:
  "0 \<le> t_quantity (fst p) \<Longrightarrow> 0 \<le> adverse_pair_cost p"
  by (cases p) (simp add: adverse_pair_cost_def Let_def)

lemma get_adverse_selection_cost_spec:
  "get_adverse_selection_cost self = adverse_selection_spec (trades self)"
  by (simp add: get_adverse_selection_cost_def adverse_selection_spec_def
      fold_adverse_selection_body sum_list_consecutive_pairs)

text \<open>
  Claim C7. \<open>get_adverse_selection_cost\<close> returns 0 when fewer than two trades are recorded;
  otherwise it returns the negative of the sum, over the consecutive pairs \<open>(t, t_next)\<close> of
  trades in recording order, of \<open>|t_next.mid_price - t.mid_price| * t.quantity\<close> for the
  pairs where \<open>t\<close> is a buy and the mid price fell or \<open>t\<close> is a sell and the mid price rose.
  When no recorded quantity is negative, the result is at most 0.
\<close>
theorem adverse_selection_cost_negated_pair_sum:
  "get_adverse_selection_cost self = adverse_selection_spec (trades self)
   \<and> (length (trades self) < 2 \<longrightarrow> get_adverse_selection_cost self = 0)
   \<and> (2 \<le> length (trades self) \<longrightarrow>
        get_adverse_selection_cost self
          = - sum_list (map adverse_pair_cost (zip (trades self) (tl (trades self)))))
   \<and> ((\<forall>t \<in> set (trades self). 0 \<le> t_quantity t) \<longrightarrow> get_adverse_selection_cost self \<le> 0)"
proof (intro conjI impI)
  show eq: "get_adverse_selection_cost self = adverse_selection_spec (trades self)"
    by (rule get_adverse_selection_cost_spec)
  show "get_adverse_selection_cost self = 0" if "length (trades self) < 2"
    using that by (simp add: get_adverse_selection_cost_def)
  show "get_adverse_selection_cost self
          = - sum_list (map adverse_pair_cost (zip (trades self) (tl (trades self))))"
    if "2 \<le> length (trades self)"
    using that eq by (simp add: adverse_selection_spec_def)
  show "get_adverse_selection_cost self \<le> 0" if q: "\<forall>t \<in> set (trades self). 0 \<le> t_quantity t"
  proof -
    have "0 \<le> sum_list (map adverse_pair_cost (zip (trades self) (tl (trades self))))"
    proof (rule sum_list_nonneg)
      fix x assume "x \<in> set (map adverse_pair_cost (zip (trades self) (tl (trades self))))"
      then obtain p where p: "p \<in> set (zip (trades self) (tl (trades self)))"
        and x: "x = adverse_pair_cost p" by auto
      have "fst p \<in> set (trades self)"
        using p set_zip_leftD [of "fst p" "snd p" "trades self" "tl (trades self)"] by simp
      with q x show "0 \<le> x" by (simp add: adverse_pair_cost_nonneg)
    qed
    with eq show ?thesis by (simp add: adverse_selection_spec_def)
  qed
qed

text \<open>The example of the tests: a buy of 10 at mid 100 followed by a sell of 10 at mid 99.\<close>
theorem adverse_selection_cost_negated_pair_sum_witness:
  "length (trades (record_trade 2 ''sell'' 99 10 99 (record_trade 1 ''buy'' 100 10 100 PnLTracker_init))) = 2
   \<and> get_adverse_selection_cost
        (record_trade 2 ''sell'' 99 10 99 (record_trade 1 ''buy'' 100 10 100 PnLTracker_init)) = - 10
   \<and> get_adverse_selection_cost
        (record_trade 2 ''sell'' 99 10 99 (record_trade 1 ''buy'' 100 10 100 PnLTracker_init)) \<le> 0
   \<and> get_adverse_selection_cost PnLTracker_init = 0"
proof -
  let ?tr = "record_trade 2 ''sell'' 99 10 99 (record_trade 1 ''buy'' 100 10 100 PnLTracker_init)"
  have len: "length (trades ?tr) = 2"
    by (simp add: record_trade_def PnLTracker_init_def)
  have q: "\<forall>t \<in> set (trades ?tr). 0 \<le> t_quantity t"
    by (simp add: record_trade_def PnLTracker_init_def)
  have e: "length (trades PnLTracker_init) < 2"
    by (simp add: PnLTracker_init_def)
  from adverse_selection_cost_negated_pair_sum [of ?tr] len q
  have "get_adverse_selection_cost ?tr
          = - sum_list (map adverse_pair_cost (zip (trades ?tr) (tl (trades ?tr))))"
    and le: "get_adverse_selection_cost ?tr \<le> 0" by simp_all
  then have v: "get_adverse_selection_cost ?tr = - 10"
    by (simp add: record_trade_def PnLTracker_init_def adverse_pair_cost_def)
  from adverse_selection_cost_negated_pair_sum [of PnLTracker_init] e
  have z: "get_adverse_selection_cost PnLTracker_init = 0" by simp
  from len v le z show ?thesis by simp
qed

text \<open>The definitions that a run of the simulator on concrete objects unfolds.\<close>

lemmas eval_defs = step_def get_quotes_def RiskManager_apply_def get_cash_pnl_def get_total_pnl_def
  get_mid_price_def get_inventory_def simulate_order_flow_def simulate_price_move_def
  update_mid_price_def execute_ask_fill_def execute_bid_fill_def record_trade_def
  record_inventory_snapshot_def counter_numpy_def default_order_book_def OrderBook_init_def
  default_market_maker_def MarketMaker_init_def default_risk_manager_def PnLTracker_init_def
  Let_def

section \<open>The inventory limit\<close>

text \<open>
  Whatever branch \<open>RiskManager.apply\<close> takes, it multiplies both sizes by one factor between
  0 and 1, provided \<open>min_throttle\<close> is at most 1.
\<close>
lemma RiskManager_apply_scales:
  assumes "min_throttle rm \<le> 1"
    and "RiskManager_apply rm bp bs ap az i m pnl = (bp', bs', ap', az', act)"
  shows "\<exists>c. 0 \<le> c \<and> c \<le> 1 \<and> bs' = bs * c \<and> az' = az * c"
proof (cases "enable_kill_switch rm \<and> drawdown_limit rm \<noteq> None
               \<and> pnl \<le> - \<bar>the (drawdown_limit rm)\<bar>")
  case True
  with assms(2) have "bs' = bs * 0 \<and> az' = az * 0"
    by (simp add: RiskManager_apply_def)
  then show ?thesis by (intro exI [of _ 0]) simp
next
  case kill: False
  show ?thesis
  proof (cases "enable_size_throttle rm \<and> m > 0")
    case True
    define c where "c = max (min_throttle rm) (1 - min 1 (\<bar>i\<bar> / m))"
    from True have "0 \<le> \<bar>i\<bar> / m" by simp
    then have "0 \<le> c" "c \<le> 1" using assms(1) by (simp_all add: c_def)
    moreover from kill True assms(2) have "bs' = bs * c \<and> az' = az * c"
      by (auto simp: RiskManager_apply_def c_def Let_def split: if_splits)
    ultimately show ?thesis by blast
  next
    case False
    with kill assms(2) have "bs' = bs * 1 \<and> az' = az * 1"
      by (auto simp: RiskManager_apply_def split: if_splits)
    then show ?thesis by (intro exI [of _ 1]) simp
  qed
qed

text \<open>A fill of part of a size stays between no fill and the full fill.\<close>
lemma scaled_size_within:
  fixes i q c m :: real
  assumes "\<bar>i\<bar> \<le> m" "\<bar>i + q\<bar> \<le> m" "0 \<le> c" "c \<le> 1"
  shows "\<bar>i + q * c\<bar> \<le> m"
proof (cases "0 \<le> q")
  case True
  then have "0 \<le> q * c" "q * c \<le> q"
    using assms(3,4) by (simp_all add: mult_left_le)
  with assms(1,2) show ?thesis by linarith
next
  case False
  then have "q * c \<le> 0" "q \<le> q * c"
    using assms(3,4) by (simp_all add: mult_nonpos_nonneg mult_left_le_one_le)
  with assms(1,2) show ?thesis by linarith
qed

text \<open>
  The suppression in \<open>get_quotes\<close>: a side that is quoted with a positive size can be filled
  in full without the inventory leaving the limit.
\<close>
lemma get_quotes_sizes_safe:
  assumes rm: "\<forall>rm. risk_manager mm = Some rm \<longrightarrow> min_throttle rm \<le> 1"
    and inv: "\<bar>inventory mm\<bar> \<le> max_inventory mm"
    and q: "get_quotes mm ob = ((bid_price, bid_size, ask_price, ask_size), mm', ob')"
  shows "(bid_size > 0 \<longrightarrow> \<bar>inventory mm + bid_size\<bar> \<le> max_inventory mm)
       \<and> (ask_size > 0 \<longrightarrow> \<bar>inventory mm - ask_size\<bar> \<le> max_inventory mm)"
proof -
  define b0 where "b0 = (if \<bar>inventory mm + quote_size mm\<bar> \<le> max_inventory mm
                         then quote_size mm else 0)"
  define a0 where "a0 = (if \<bar>inventory mm - quote_size mm\<bar> \<le> max_inventory mm
                         then quote_size mm else 0)"
  have b0: "\<bar>inventory mm + b0\<bar> \<le> max_inventory mm"
    and a0: "\<bar>inventory mm + (- a0)\<bar> \<le> max_inventory mm"
    using inv by (simp_all add: b0_def a0_def)
  have "\<exists>c. 0 \<le> c \<and> c \<le> 1 \<and> bid_size = b0 * c \<and> ask_size = a0 * c"
  proof (cases "risk_manager mm")
    case None
    with q have "bid_size = b0 * 1 \<and> ask_size = a0 * 1"
      by (auto simp: get_quotes_def Let_def b0_def a0_def)
    then show ?thesis by (intro exI [of _ 1]) simp
  next
    case (Some r)
    with rm have le: "min_throttle r \<le> 1" by simp
    obtain bp' bs' ap' az' act where
      ap: "RiskManager_apply r (get_mid_price ob - quote_spread mm - inventory mm * inventory_skew_factor mm)
             b0 (get_mid_price ob + quote_spread mm + inventory mm * inventory_skew_factor mm) a0
             (inventory mm) (max_inventory mm) (get_cash_pnl mm) = (bp', bs', ap', az', act)"
      by (metis prod_cases5)
    from q Some ap have "bid_size = bs'" "ask_size = az'"
      by (simp_all add: get_quotes_def Let_def b0_def a0_def)
    with RiskManager_apply_scales [OF le ap] show ?thesis by simp
  qed
  then obtain c where c: "0 \<le> c" "c \<le> 1" and bs: "bid_size = b0 * c" and az: "ask_size = a0 * c"
    by blast
  have "\<bar>inventory mm + b0 * c\<bar> \<le> max_inventory mm"
    by (rule scaled_size_within [OF inv b0 c])
  moreover have "\<bar>inventory mm + (- a0) * c\<bar> \<le> max_inventory mm"
    by (rule scaled_size_within [OF inv a0 c])
  ultimately show ?thesis using bs az by simp
qed

lemma simulate_price_move_market_maker:
  "market_maker (fst (snd (simulate_price_move np volatility dt self g))) = market_maker self"
  by (simp add: simulate_price_move_def Let_def split: prod.split sum.split)

text \<open>One step keeps the configuration and the inventory bound, also when it raises.\<close>
lemma step_market_maker:
  assumes rm: "\<forall>rm. risk_manager (market_maker self) = Some rm \<longrightarrow> min_throttle rm \<le> 1"
    and inv: "\<bar>inventory (market_maker self)\<bar> \<le> max_inventory (market_maker self)"
    and st: "step np volatility arrival_rate dt self g = (r, self', g')"
  shows "quote_size (market_maker self') = quote_size (market_maker self)
       \<and> max_inventory (market_maker self') = max_inventory (market_maker self)
       \<and> risk_manager (market_maker self') = risk_manager (market_maker self)
       \<and> \<bar>inventory (market_maker self')\<bar> \<le> max_inventory (market_maker self)"
proof -
  let ?mm = "market_maker self" and ?ob = "order_book self"
  obtain bid_price bid_size ask_price ask_size
    where q: "get_quotes ?mm ?ob = ((bid_price, bid_size, ask_price, ask_size), ?mm, ?ob)"
    using get_quotes_snd [of ?mm ?ob] by (cases "get_quotes ?mm ?ob") auto
  note safe = get_quotes_sizes_safe [OF rm inv q]
  obtain order_side g1 where fl: "simulate_order_flow np arrival_rate g = (order_side, g1)"
    by (cases "simulate_order_flow np arrival_rate g")
  define self2 where "self2 = self\<lparr>current_time := current_time self + dt\<rparr>"
  define self3 where "self3 =
     (if order_side = Some ''buy'' \<and> ask_size > 0 then
        self2\<lparr>market_maker := execute_ask_fill ask_price ask_size ?mm,
               pnl_tracker := record_trade (current_time self2) ''sell'' ask_price ask_size
                                (get_mid_price ?ob) (pnl_tracker self2)\<rparr>
      else if order_side = Some ''sell'' \<and> bid_size > 0 then
        self2\<lparr>market_maker := execute_bid_fill bid_price bid_size ?mm,
               pnl_tracker := record_trade (current_time self2) ''buy'' bid_price bid_size
                                (get_mid_price ?ob) (pnl_tracker self2)\<rparr>
      else self2)"
  have mm3: "quote_size (market_maker self3) = quote_size ?mm
       \<and> max_inventory (market_maker self3) = max_inventory ?mm
       \<and> risk_manager (market_maker self3) = risk_manager ?mm
       \<and> \<bar>inventory (market_maker self3)\<bar> \<le> max_inventory ?mm"
    using safe inv by (simp add: self3_def self2_def execute_ask_fill_def execute_bid_fill_def)
  have "market_maker self' = market_maker (fst (snd (simulate_price_move np volatility dt self3 g1)))"
    using st q fl
    by (auto simp: step_def Let_def self3_def self2_def split: prod.splits sum.splits if_splits)
  with mm3 show ?thesis by (simp add: simulate_price_move_market_maker)
qed

text \<open>
  Claim C2. For a market maker with \<open>quote_size \<ge> 0\<close>, \<open>max_inventory > 0\<close> and, when a risk
  manager is attached, \<open>0 < min_throttle \<le> 1\<close>, starting from any state with
  \<open>|inventory| \<le> max_inventory\<close>: after any sequence of calls of \<open>step\<close>, with any arguments
  and any behaviour of the random generator, \<open>|inventory| \<le> max_inventory\<close> holds and
  \<open>max_inventory\<close> is the configured one. Every prefix of a sequence is a sequence, so the
  bound holds after every step.
\<close>
theorem inventory_stays_within_limit:
  assumes "0 \<le> quote_size (market_maker self)"
    and "0 < max_inventory (market_maker self)"
    and "\<forall>rm. risk_manager (market_maker self) = Some rm \<longrightarrow> 0 < min_throttle rm \<and> min_throttle rm \<le> 1"
    and "\<bar>inventory (market_maker self)\<bar> \<le> max_inventory (market_maker self)"
  shows "\<bar>inventory (market_maker (fst (step_calls np calls self g)))\<bar>
           \<le> max_inventory (market_maker self)
       \<and> max_inventory (market_maker (fst (step_calls np calls self g)))
           = max_inventory (market_maker self)"
  using assms
proof (induction calls arbitrary: self g)
  case Nil
  then show ?case by simp
next
  case (Cons call calls)
  obtain volatility arrival_rate dt where call: "call = (volatility, arrival_rate, dt)"
    by (cases call)
  obtain r self' g' where st: "step np volatility arrival_rate dt self g = (r, self', g')"
    by (cases "step np volatility arrival_rate dt self g")
  from Cons.prems have rm: "\<forall>rm. risk_manager (market_maker self) = Some rm \<longrightarrow> min_throttle rm \<le> 1"
    by simp
  note keep = step_market_maker [OF rm Cons.prems(4) st]
  from keep Cons.prems have
    "\<bar>inventory (market_maker (fst (step_calls np calls self' g')))\<bar> \<le> max_inventory (market_maker self')
     \<and> max_inventory (market_maker (fst (step_calls np calls self' g'))) = max_inventory (market_maker self')"
    by (intro Cons.IH) simp_all
  with keep call st show ?case by simp
qed

text \<open>
  Two steps of the simulator with the throttle attached: the first fills the bid with 10,
  the second fills the ask with the throttled 9, and the inventory ends at 1.
\<close>

theorem inventory_stays_within_limit_witness:
  "0 \<le> quote_size (market_maker throttled_simulator)
   \<and> 0 < max_inventory (market_maker throttled_simulator)
   \<and> risk_manager (market_maker throttled_simulator) = Some default_risk_manager
   \<and> 0 < min_throttle default_risk_manager \<and> min_throttle default_risk_manager \<le> 1
   \<and> \<bar>inventory (market_maker throttled_simulator)\<bar> \<le> max_inventory (market_maker throttled_simulator)
   \<and> inventory (market_maker (fst (step_calls counter_numpy [(0.01, 0.5, 1), (0.01, 0.5, 1)]
                                       throttled_simulator 1))) = 1
   \<and> \<bar>inventory (market_maker (fst (step_calls counter_numpy [(0.01, 0.5, 1), (0.01, 0.5, 1)]
                                        throttled_simulator 1)))\<bar> \<le> 100"
proof -
  let ?mm = "market_maker throttled_simulator"
  have h1: "0 \<le> quote_size ?mm" and h2: "0 < max_inventory ?mm"
    and h4: "\<bar>inventory ?mm\<bar> \<le> max_inventory ?mm" and m: "max_inventory ?mm = 100"
    by (simp_all add: throttled_simulator_def default_market_maker_def MarketMaker_init_def)
  have r: "risk_manager ?mm = Some default_risk_manager"
    by (simp add: throttled_simulator_def default_market_maker_def MarketMaker_init_def)
  have t: "0 < min_throttle default_risk_manager \<and> min_throttle default_risk_manager \<le> 1"
    by (simp add: default_risk_manager_def)
  from r t have h3: "\<forall>rm. risk_manager ?mm = Some rm \<longrightarrow> 0 < min_throttle rm \<and> min_throttle rm \<le> 1"
    by simp
  have v: "inventory (market_maker (fst (step_calls counter_numpy [(0.01, 0.5, 1), (0.01, 0.5, 1)]
                                           throttled_simulator 1))) = 1"
    by (simp add: throttled_simulator_def eval_defs)
  from inventory_stays_within_limit [OF h1 h2 h3 h4, of counter_numpy "[(0.01, 0.5, 1), (0.01, 0.5, 1)]" 1]
    h1 h2 r t h4 v m show ?thesis by simp
qed

section \<open>Seeded runs\<close>

text \<open>The price move makes exactly one normal draw, with location 0.\<close>
lemma simulate_price_move_generator:
  "snd (snd (simulate_price_move np volatility dt self g))
     = snd (np_random_normal np 0 (volatility * np_sqrt np dt) g)"
  by (simp add: simulate_price_move_def Let_def split: prod.split sum.split)

lemma simulate_price_move_generatorD:
  "simulate_price_move np volatility dt self g = (r, self', g')
   \<Longrightarrow> g' = snd (np_random_normal np 0 (volatility * np_sqrt np dt) g)"
  using simulate_price_move_generator [of np volatility dt self g] by simp

text \<open>The order flow makes the arrival draw and, only on arrival, the direction draw.\<close>
lemma simulate_order_flow_generator:
  "snd (simulate_order_flow np arrival_rate g)
     = (case np_random_random np g of (u, g1) \<Rightarrow>
          if u < arrival_rate then snd (np_random_random np g1) else g1)"
  by (simp add: simulate_order_flow_def split: prod.split)

lemma step_generator:
  "snd (snd (step np volatility arrival_rate dt self g)) = step_draws np volatility arrival_rate dt g"
proof -
  let ?mm = "market_maker self" and ?ob = "order_book self"
  obtain bid_price bid_size ask_price ask_size
    where q: "get_quotes ?mm ?ob = ((bid_price, bid_size, ask_price, ask_size), ?mm, ?ob)"
    using get_quotes_snd [of ?mm ?ob] by (cases "get_quotes ?mm ?ob") auto
  obtain order_side g1 where fl: "simulate_order_flow np arrival_rate g = (order_side, g1)"
    by (cases "simulate_order_flow np arrival_rate g")
  obtain r self' g' where st: "step np volatility arrival_rate dt self g = (r, self', g')"
    by (cases "step np volatility arrival_rate dt self g")
  have "g' = snd (np_random_normal np 0 (volatility * np_sqrt np dt) g1)"
    using st q fl
    by (auto simp: step_def Let_def split: prod.splits sum.splits if_splits
        dest: simulate_price_move_generatorD)
  moreover have "g1 = (case np_random_random np g of (u, g1) \<Rightarrow>
                         if u < arrival_rate then snd (np_random_random np g1) else g1)"
    using simulate_order_flow_generator [of np arrival_rate g] fl by simp
  ultimately show ?thesis using st
    by (simp add: step_draws_def Let_def split: prod.split)
qed

text \<open>Constructing with a seed replaces the global generator state, whatever it was.\<close>
lemma MarketSimulator_init_seeded:
  "MarketSimulator_init np ob mm tr (Some s) g =
     (case np_random_seed np s of
        Inl e \<Rightarrow> Inl e
      | Inr g1 \<Rightarrow> Inr (\<lparr>order_book = ob, market_maker = mm, pnl_tracker = tr,
                          current_time = 0, history = []\<rparr>, g1))"
  by (simp add: MarketSimulator_init_def)

text \<open>
  Claim C3, for simulators that are run right after their construction. The sequence of
  \<open>(mid_price, inventory)\<close> pairs produced by constructing a simulator with a seed and
  running it for \<open>num_steps\<close> steps is the same from any two states \<open>g\<close>, \<open>g'\<close> of the global
  generator before the construction: it depends on the configuration, the seed, the number
  of steps and the step arguments only. So two simulators with the same configuration and
  seed, each constructed and run in turn as in \<open>test_deterministic_with_seed\<close>, produce the
  same sequence. Every step leaves the generator in the state reached by the arrival draw,
  the direction draw only when the arrival occurred, and the price draw, in this order.
\<close>
theorem seeded_run_deterministic:
  "fst (construct_and_run np ob mm tr random_seed num_steps volatility arrival_rate dt g)
     = fst (construct_and_run np ob mm tr random_seed num_steps volatility arrival_rate dt g')
   \<and> snd (snd (step np volatility arrival_rate dt self g))
       = step_draws np volatility arrival_rate dt g"
proof
  show "fst (construct_and_run np ob mm tr random_seed num_steps volatility arrival_rate dt g)
     = fst (construct_and_run np ob mm tr random_seed num_steps volatility arrival_rate dt g')"
    by (simp add: construct_and_run_def MarketSimulator_init_seeded split: sum.split)
  show "snd (snd (step np volatility arrival_rate dt self g))
       = step_draws np volatility arrival_rate dt g"
    by (rule step_generator)
qed

text \<open>
  Seed 123, two steps, the default arguments of \<open>step\<close>: the same sequence whether the
  generator was at 0 or at 128 (where the first run leaves it) before the construction.
\<close>

theorem seeded_run_deterministic_witness:
  "fst (construct_and_run counter_numpy default_order_book default_market_maker PnLTracker_init
          123 2 0.01 0.5 1 0) = Inr [(100, 0), (100, 10)]
   \<and> snd (construct_and_run counter_numpy default_order_book default_market_maker PnLTracker_init
          123 2 0.01 0.5 1 0) = 128
   \<and> fst (construct_and_run counter_numpy default_order_book default_market_maker PnLTracker_init
          123 2 0.01 0.5 1 128) = Inr [(100, 0), (100, 10)]"
proof -
  have a: "construct_and_run counter_numpy default_order_book default_market_maker PnLTracker_init
             123 2 0.01 0.5 1 0 = (Inr [(100, 0), (100, 10)], 128)"
    by (simp add: construct_and_run_def MarketSimulator_init_def run_def mid_inventory_sequence_def
        numeral_2_eq_2 eval_defs)
  from seeded_run_deterministic [of counter_numpy default_order_book default_market_maker
      PnLTracker_init 123 2 "0.01" "0.5" 1 0 128] a
  show ?thesis by simp
qed

text \<open>
  When both simulators are constructed before either runs, the second construction seeds
  the one global generator again, the first run draws from it, and the second run goes on
  from where the first run stopped.
\<close>

lemma construct_both_then_run_shares_generator:
  assumes "np_random_seed np random_seed = Inr gs"
    and "run np num_steps volatility arrival_rate dt
           \<lparr>order_book = ob, market_maker = mm, pnl_tracker = tr, current_time = 0, history = []\<rparr> gs
         = (Inr h1, sim1, g3)"
    and "run np num_steps volatility arrival_rate dt
           \<lparr>order_book = ob, market_maker = mm, pnl_tracker = tr, current_time = 0, history = []\<rparr> g3
         = (Inr h2, sim2, g4)"
  shows "construct_both_then_run np ob mm tr random_seed num_steps volatility arrival_rate dt g
           = Inr (mid_inventory_sequence h1, mid_inventory_sequence h2)"
  using assms by (simp add: construct_both_then_run_def MarketSimulator_init_seeded)

text \<open>
  Two simulators with the default configuration and seed 123, both constructed and then
  both run for two steps, produce different inventory sequences.
\<close>

theorem construct_both_then_run_counterexample:
  "construct_both_then_run counter_numpy default_order_book default_market_maker PnLTracker_init
     123 2 0.01 0.5 1 0 = Inr ([(100, 0), (100, 10)], [(100, - 10), (100, - 10)])
   \<and> [(100, 0), (100, 10)] \<noteq> [(100 :: real, - 10 :: real), (100, - 10)]"
  by (simp add: construct_both_then_run_def MarketSimulator_init_def run_def
      mid_inventory_sequence_def numeral_2_eq_2 eval_defs)

end
